theory Spec2Isabelle
  imports Main
begin

section \<open>JavaScript values, errors and array primitives\<close>

text \<open>
  User ids, session ids and game kinds are JavaScript strings; \<open>===\<close> on strings is
  equality of their contents. The only exception the modelled code can raise is a
  \<open>TypeError\<close> (a property read on \<open>null\<close>/\<open>undefined\<close>, or an indexed assignment
  to a non-object in strict mode).
\<close>

type_synonym uid = string

datatype js_error = TypeError

datatype jsval = Undefined | Null | Str string | Arr "jsval list"

text \<open>\<open>Array.prototype.indexOf\<close>: the index of the first element equal to \<open>x\<close>, else \<open>-1\<close>.\<close>

fun indexOf_from :: "'a list \<Rightarrow> 'a \<Rightarrow> int \<Rightarrow> int" where
  "indexOf_from [] x k = - 1"
| "indexOf_from (y # ys) x k = (if y = x then k else indexOf_from ys x (k + 1))"

definition indexOf :: "'a list \<Rightarrow> 'a \<Rightarrow> int" where
  "indexOf xs x = indexOf_from xs x 0"

text \<open>\<open>Array.prototype.push\<close> with one argument: the element becomes the last one.\<close>

definition push :: "'a list \<Rightarrow> 'a \<Rightarrow> 'a list" where
  "push xs x = xs @ [x]"

text \<open>
  \<open>a[i] = v\<close> on a JavaScript array: inside the array the element is replaced; at or past
  the end the array grows to length \<open>i + 1\<close>, the skipped positions reading
  \<open>undefined\<close>.
\<close>

definition array_assign :: "jsval list \<Rightarrow> nat \<Rightarrow> jsval \<Rightarrow> jsval list" where
  "array_assign xs i v =
     (if i < length xs then xs[i := v]
      else xs @ replicate (i - length xs) Undefined @ [v])"

section \<open>The remote store\<close>

text \<open>
  A stored object is a map from keys to values; a location that holds no data reads
  \<open>null\<close>, here \<open>None\<close>. \<open>/session-metadata/<id>\<close> holds a session's metadata,
  \<open>/session/<id>\<close> the game's own data.
\<close>

type_synonym document = "string \<rightharpoonup> jsval"

record session =
  id_s :: string
  type_s :: string
  creator :: uid
  users :: "uid list"
  timestamp :: int

record database =
  session_metadata :: "string \<rightharpoonup> session"
  session_data :: "string \<rightharpoonup> document"

text \<open>Reading the property \<open>k\<close> of an object: \<open>undefined\<close> when the object has no such key.\<close>

definition get_prop :: "document \<Rightarrow> string \<Rightarrow> jsval" where
  "get_prop d k = (case d k of None \<Rightarrow> Undefined | Some v \<Rightarrow> v)"

text \<open>
  An object literal handed to the store: its keys (distinct) with their values.
\<close>

type_synonym js_object = "(string \<times> jsval) list"

text \<open>
  What a location keeps of a value written to it: no node for \<open>null\<close> and none for an
  empty array; a string or a non-empty array of strings as it is. (The values written
  here are user ids, \<open>null\<close> and arrays of strings.)
\<close>

definition stored_child :: "jsval \<Rightarrow> jsval option" where
  "stored_child v = (if v = Null \<or> v = Arr [] then None else Some v)"

text \<open>
  The database reference's \<open>set(value)\<close>, as the code calls it on
  \<open>getSessionDatabaseRef()\<close>: afterwards the location holds the children of \<open>value\<close>
  that the store keeps and nothing of what it held before; when no child is kept it holds
  no data. Its \<open>update(values)\<close>, on the children of a location (none: no data):
  a child given a value is written, a child given \<open>null\<close> is removed, the others stay.
\<close>

definition ref_set :: "js_object \<Rightarrow> document option \<Rightarrow> document option" where
  "ref_set v old =
     (let kept = filter (\<lambda>(k, x). stored_child x \<noteq> None) v
      in if kept = [] then None else Some (map_of kept))"

definition ref_update :: "js_object \<Rightarrow> document \<Rightarrow> document" where
  "ref_update v d = (\<lambda>k. case map_of v k of None \<Rightarrow> d k | Some x \<Rightarrow> stored_child x)"

text \<open>
  Modelled from the spec: \<open>GameDatabase.js\<close>, which defines \<open>setGameData\<close>, is not among
  the sources; only its description is ("They only update the key and value pairs
  provided in the data parameter. They do not override the entire object."; the spec's
  \<open>publish\<close> "merges the given key/value pairs into the remote document without clearing
  keys not mentioned").
\<close>

definition setGameData :: "js_object \<Rightarrow> document \<Rightarrow> document" where
  "setGameData data d = ref_update data d"

section \<open>GameCard: the session registry's operations\<close>

text \<open>
  \<open>gameData.js\<close> is not among the sources: the table of game kinds is a parameter, a
  JavaScript object from kind to entry. Reading \<open>gameData[type].maxUsers\<close> for a kind
  the table lacks raises a \<open>TypeError\<close>.
\<close>

record game_info =
  minUsers :: int
  maxUsers :: int

type_synonym gameData = "string \<rightharpoonup> game_info"

text \<open>
  The function \<open>joinSession\<close> hands to \<open>transaction\<close>, for the caller \<open>uid\<close>, on the
  array the transaction reads.
\<close>

definition joinSession_update :: "uid \<Rightarrow> uid list \<Rightarrow> uid list" where
  "joinSession_update uid users_now =
     (if indexOf users_now uid < 0 then push users_now uid else users_now)"

text \<open>
  \<open>joinSession\<close>: a transaction on \<open>/session-metadata/<id>/users\<close>, run atomically
  on the value the store holds. \<open>s\<close> is \<open>this.props.session\<close>, the card's cached copy
  of the metadata, of which only the id is used. The store keeps no node for an empty
  array: when the session is gone or its roster is empty the transaction function receives
  \<open>null\<close>, \<open>users.indexOf\<close> raises and nothing is written.
\<close>

definition joinSession :: "uid \<Rightarrow> session \<Rightarrow> database \<Rightarrow> js_error + database" where
  "joinSession uid s db =
     (case session_metadata db (id_s s) of
        None \<Rightarrow> Inl TypeError
      | Some m \<Rightarrow>
          if users m = [] then Inl TypeError
          else Inr (db\<lparr>session_metadata :=
                      (session_metadata db)(id_s s \<mapsto>
                         m\<lparr>users := joinSession_update uid (users m)\<rparr>)\<rparr>))"



definition isInSession :: "uid \<Rightarrow> session \<Rightarrow> bool" where
  "isInSession uid s = (indexOf (users s) uid \<ge> 0)"

definition shouldShowStartButton :: "uid \<Rightarrow> gameData \<Rightarrow> session \<Rightarrow> js_error + bool" where
  "shouldShowStartButton uid gd s =
     (case gd (type_s s) of
        None \<Rightarrow> Inl TypeError
      | Some g \<Rightarrow> Inr (isInSession uid s \<and> int (length (users s)) \<ge> minUsers g))"

definition isFull :: "gameData \<Rightarrow> session \<Rightarrow> js_error + bool" where
  "isFull gd s =
     (case gd (type_s s) of
        None \<Rightarrow> Inl TypeError
      | Some g \<Rightarrow> Inr (int (length (users s)) \<ge> maxUsers g))"

definition getGamePath :: "session \<Rightarrow> string" where
  "getGamePath s = ''/'' @ type_s s @ ''/'' @ id_s s"

text \<open>
  The two controls \<open>render\<close> puts in the card's actions: the link to the game or the
  join button (with its \<open>disabled\<close> flag and its label), and the delete button (its
  \<open>disabled\<close> flag).
\<close>

datatype control = StartGameLink string | JoinButton bool string

definition render_joinOrStartButton :: "uid \<Rightarrow> gameData \<Rightarrow> session \<Rightarrow> js_error + control" where
  "render_joinOrStartButton uid gd s =
     (case shouldShowStartButton uid gd s of
        Inl e \<Rightarrow> Inl e
      | Inr start \<Rightarrow>
          if start then Inr (StartGameLink (getGamePath s))
          else (case isFull gd s of
                  Inl e \<Rightarrow> Inl e
                | Inr full \<Rightarrow>
                    Inr (JoinButton (isInSession uid s \<or> full)
                           (if full then ''Game is full'' else ''Join''))))"


text \<open>
  A click on a rendered control: a disabled button runs no handler; the join button runs
  \<open>joinSession\<close>, the delete button \<open>deleteSession\<close>; the link changes no data.
\<close>

definition click_join :: "uid \<Rightarrow> gameData \<Rightarrow> session \<Rightarrow> database \<Rightarrow> js_error + database" where
  "click_join uid gd s db =
     (case render_joinOrStartButton uid gd s of
        Inl e \<Rightarrow> Inl e
      | Inr (StartGameLink p) \<Rightarrow> Inr db
      | Inr (JoinButton disabled label) \<Rightarrow>
          if disabled then Inr db else joinSession uid s db)"


section \<open>TicTacToe: the turn-based game component\<close>

text \<open>
  The component: what the getters of the base class return (\<open>getMyUserId()\<close>,
  \<open>getSessionCreatorUserId()\<close>, \<open>getSessionUserIds()\<close>) and its React state, the local
  copy of the last delivered game data.
\<close>

record tictactoe =
  myUserId :: uid
  sessionCreatorUserId :: uid
  sessionUserIds :: "uid list"
  cellState :: jsval
  currentUser :: jsval

definition onSessionDataChanged :: "document \<Rightarrow> tictactoe \<Rightarrow> tictactoe" where
  "onSessionDataChanged data t =
     t\<lparr>cellState := get_prop data ''cell_state'', currentUser := get_prop data ''current_user''\<rparr>"

definition isMyTurn :: "tictactoe \<Rightarrow> bool" where
  "isMyTurn t = (Str (myUserId t) = currentUser t)"

text \<open>The loop of \<open>getOtherUserId\<close> over \<open>user_ids\<close>; \<open>null\<close> after the error is logged.\<close>

fun getOtherUserId_loop :: "uid list \<Rightarrow> uid \<Rightarrow> jsval" where
  "getOtherUserId_loop [] me = Null"
| "getOtherUserId_loop (u # us) me = (if u \<noteq> me then Str u else getOtherUserId_loop us me)"

definition getOtherUserId :: "tictactoe \<Rightarrow> jsval" where
  "getOtherUserId t = getOtherUserId_loop (sessionUserIds t) (myUserId t)"

text \<open>
  \<open>handleButtonClick(i)\<close> on the data stored at \<open>/session/<id>\<close>: the array of the
  component's state is assigned in place (an indexed assignment to anything but an array
  raises), then the object is written with \<open>set\<close>. The result is the component and the
  stored data afterwards.
\<close>

definition handleButtonClick ::
  "tictactoe \<Rightarrow> nat \<Rightarrow> document option \<Rightarrow> js_error + (tictactoe \<times> document option)" where
  "handleButtonClick t i stored =
     (case cellState t of
        Arr cells \<Rightarrow>
          let cells' = array_assign cells i
                (if myUserId t = sessionCreatorUserId t then Str ''X'' else Str ''O'')
          in Inr (t\<lparr>cellState := Arr cells'\<rparr>,
                  ref_set [(''cell_state'', Arr cells'),
                           (''current_user'', getOtherUserId t)] stored)
      | _ \<Rightarrow> Inl TypeError)"

text \<open>
  \<open>render\<close>: \<open>map\<close> makes one button per cell, each with its \<open>disabled\<close> flag and
  its text (\<open>map\<close> on anything but an array raises); the page shows \<open>buttons[0]\<close> to
  \<open>buttons[8]\<close>.
\<close>

definition render_buttons :: "tictactoe \<Rightarrow> js_error + (bool \<times> jsval) list" where
  "render_buttons t =
     (case cellState t of
        Arr cells \<Rightarrow> Inr (map (\<lambda>state. (\<not> isMyTurn t \<or> state \<noteq> Str ''.'', state)) cells)
      | _ \<Rightarrow> Inl TypeError)"

text \<open>
  A click on the \<open>i\<close>-th button of the page: a button that is disabled, or that the page
  does not show, runs no handler.
\<close>

definition click_button ::
  "tictactoe \<Rightarrow> nat \<Rightarrow> document option \<Rightarrow> js_error + (tictactoe \<times> document option)" where
  "click_button t i stored =
     (case render_buttons t of
        Inl e \<Rightarrow> Inl e
      | Inr buttons \<Rightarrow>
          if i < 9 \<and> i < length buttons \<and> \<not> fst (buttons ! i)
          then handleButtonClick t i stored
          else Inr (t, stored))"

section \<open>Example data\<close>

text \<open>
  The table of kinds as the tutorial gives it (tic-tac-toe is a two-player game, the chat
  room takes one to ten users), a session that its creator alone has joined, the same
  session once full, and a store that holds one session's metadata.
\<close>

definition example_gameData :: gameData where
  "example_gameData =
     [''tictactoe'' \<mapsto> \<lparr>minUsers = 2, maxUsers = 2\<rparr>,
      ''chatroom'' \<mapsto> \<lparr>minUsers = 1, maxUsers = 10\<rparr>]"

definition session_of_alice :: session where
  "session_of_alice =
     \<lparr>id_s = ''s1'', type_s = ''tictactoe'', creator = ''alice'',
      users = [''alice''], timestamp = 0\<rparr>"

definition session_full :: session where
  "session_full = session_of_alice\<lparr>users := [''alice'', ''bob'']\<rparr>"

definition store_holding :: "session \<Rightarrow> database" where
  "store_holding m = \<lparr>session_metadata = [id_s m \<mapsto> m], session_data = Map.empty\<rparr>"

text \<open>
  Tic-tac-toe: a board written as nine characters, the component as its constructor
  leaves it for the creator alice (an empty board, the first turn given to the creator),
  the same for the guest bob, and the game data as \<open>handleButtonClick\<close> writes it.
\<close>

definition board :: "string \<Rightarrow> jsval" where
  "board cs = Arr (map (\<lambda>c. Str [c]) cs)"

definition tictactoe_of_alice :: tictactoe where
  "tictactoe_of_alice =
     \<lparr>myUserId = ''alice'', sessionCreatorUserId = ''alice'',
      sessionUserIds = [''alice'', ''bob''],
      cellState = board ''.........'', currentUser = Str ''alice''\<rparr>"

definition tictactoe_of_bob :: tictactoe where
  "tictactoe_of_bob = tictactoe_of_alice\<lparr>myUserId := ''bob''\<rparr>"

definition game_data :: "string \<Rightarrow> uid \<Rightarrow> document" where
  "game_data cs u = map_of [(''cell_state'', board cs), (''current_user'', Str u)]"

section \<open>The roster under join\<close>

lemma indexOf_from_notin: "x \<notin> set xs \<Longrightarrow> indexOf_from xs x k = - 1"
  by (induction xs arbitrary: k) auto

lemma indexOf_from_in: "x \<in> set xs \<Longrightarrow> k \<le> indexOf_from xs x k"
proof (induction xs arbitrary: k)
  case Nil
  then show ?case by simp
next
  case (Cons y ys)
  show ?case
  proof (cases "y = x")
    case True
    then show ?thesis by simp
  next
    case False
    with Cons.prems have "x \<in> set ys" by simp
    then have "k + 1 \<le> indexOf_from ys x (k + 1)" by (rule Cons.IH)
    with False show ?thesis by simp
  qed
qed

lemma indexOf_neg_iff: "(indexOf xs x < 0) = (x \<notin> set xs)"
  using indexOf_from_in [of x xs 0] indexOf_from_notin [of x xs 0]
  by (auto simp: indexOf_def)

lemma joinSession_update_cases:
  "joinSession_update uid us = (if uid \<in> set us then us else us @ [uid])"
  by (simp add: joinSession_update_def indexOf_neg_iff push_def)

lemma joinSession_update_distinct:
  "distinct us \<Longrightarrow> distinct (joinSession_update uid us)"
  by (simp add: joinSession_update_cases)

lemma joinSession_update_idem:
  "joinSession_update uid (joinSession_update uid us) = joinSession_update uid us"
  by (simp add: joinSession_update_cases)

lemma joinSession_update_not_empty: "joinSession_update uid us \<noteq> []"
  by (auto simp: joinSession_update_cases)

lemma joinSession_Some:
  "session_metadata db (id_s s) = Some m \<Longrightarrow> users m \<noteq> [] \<Longrightarrow>
   joinSession uid s db =
     Inr (db\<lparr>session_metadata :=
            (session_metadata db)(id_s s \<mapsto> m\<lparr>users := joinSession_update uid (users m)\<rparr>)\<rparr>)"
  by (simp add: joinSession_def)

lemma joinSession_twice:
  assumes "joinSession uid s db = Inr db1"
  shows "joinSession uid s db1 = Inr db1"
proof -
  from assms obtain m where m: "session_metadata db (id_s s) = Some m" "users m \<noteq> []"
    by (auto simp: joinSession_def split: option.splits if_splits)
  let ?m' = "m\<lparr>users := joinSession_update uid (users m)\<rparr>"
  from assms m have db1: "db1 = db\<lparr>session_metadata := (session_metadata db)(id_s s \<mapsto> ?m')\<rparr>"
    by (simp add: joinSession_Some)
  then have look: "session_metadata db1 (id_s s) = Some ?m'" by simp
  have roster: "users ?m' \<noteq> []" by (simp add: joinSession_update_not_empty)
  have same: "?m'\<lparr>users := joinSession_update uid (users ?m')\<rparr> = ?m'"
    by (simp add: joinSession_update_idem)
  have "joinSession uid s db1 =
      Inr (db1\<lparr>session_metadata := (session_metadata db1)(id_s s \<mapsto> ?m')\<rparr>)"
    using joinSession_Some [OF look roster, of uid] by (simp only: same)
  moreover have "db1\<lparr>session_metadata := (session_metadata db1)(id_s s \<mapsto> ?m')\<rparr> = db1"
    by (simp add: db1)
  ultimately show ?thesis by simp
qed

text \<open>
  C4. From a roster without duplicates, applying the transaction function of join for
  any member ids, one after the other in any order (each application is atomic, so an
  interleaving of joins is such a sequence), gives a roster without duplicates.
\<close>

theorem join_keeps_roster_duplicate_free:
  "distinct us \<Longrightarrow> distinct (foldl (\<lambda>roster uid. joinSession_update uid roster) us uids)"
proof (induction uids arbitrary: us)
  case Nil
  then show ?case by simp
next
  case (Cons u uids)
  from Cons.prems have "distinct (joinSession_update u us)"
    by (rule joinSession_update_distinct)
  then show ?case using Cons.IH by simp
qed

theorem join_keeps_roster_duplicate_free_witness:
  "distinct [''alice'', ''bob''] \<and>
   foldl (\<lambda>roster uid. joinSession_update uid roster) [''alice'', ''bob'']
     [''carol'', ''bob'', ''dave'', ''carol''] = [''alice'', ''bob'', ''carol'', ''dave''] \<and>
   distinct (foldl (\<lambda>roster uid. joinSession_update uid roster) [''alice'', ''bob'']
     [''carol'', ''bob'', ''dave'', ''carol''])"
  using join_keeps_roster_duplicate_free
    [of "[''alice'', ''bob'']" "[''carol'', ''bob'', ''dave'', ''carol'']"]
  by (simp add: joinSession_update_cases)

text \<open>
  C5. Join is idempotent: when the id is already in the roster the transaction function
  returns the roster as it is, and \<open>joinSession\<close> succeeds and leaves the store as it
  was; applying the transaction function twice for one id gives what applying it once gives;
  and whenever a call of \<open>joinSession\<close> succeeds (as it does on every session that has a
  roster), a second call for the same id succeeds too and leaves the store as the first
  call left it.
\<close>

theorem join_idempotent:
  "(uid \<in> set us \<longrightarrow> joinSession_update uid us = us) \<and>
   joinSession_update uid (joinSession_update uid us) = joinSession_update uid us \<and>
   (session_metadata db (id_s s) = Some m \<longrightarrow> uid \<in> set (users m) \<longrightarrow>
      joinSession uid s db = Inr db) \<and>
   (session_metadata db (id_s s) = Some m \<longrightarrow> users m \<noteq> [] \<longrightarrow>
      (\<exists>db1. joinSession uid s db = Inr db1 \<and> joinSession uid s db1 = Inr db1)) \<and>
   (\<forall>db1. joinSession uid s db = Inr db1 \<longrightarrow> joinSession uid s db1 = Inr db1)"
proof (intro conjI impI allI)
  assume "uid \<in> set us"
  then show "joinSession_update uid us = us" by (simp add: joinSession_update_cases)
next
  show "joinSession_update uid (joinSession_update uid us) = joinSession_update uid us"
    by (rule joinSession_update_idem)
next
  assume m: "session_metadata db (id_s s) = Some m" and present: "uid \<in> set (users m)"
  then have "m\<lparr>users := joinSession_update uid (users m)\<rparr> = m"
    by (simp add: joinSession_update_cases)
  moreover from present have "users m \<noteq> []" by auto
  ultimately show "joinSession uid s db = Inr db"
    using m by (simp add: joinSession_Some map_upd_triv)
next
  assume m: "session_metadata db (id_s s) = Some m" and "users m \<noteq> []"
  then obtain db1 where "joinSession uid s db = Inr db1"
    by (simp add: joinSession_Some)
  then show "\<exists>db1. joinSession uid s db = Inr db1 \<and> joinSession uid s db1 = Inr db1"
    using joinSession_twice by blast
next
  fix db1
  assume "joinSession uid s db = Inr db1"
  then show "joinSession uid s db1 = Inr db1" by (rule joinSession_twice)
qed

theorem join_idempotent_witness:
  "joinSession_update ''alice'' [''alice''] = [''alice''] \<and>
   joinSession_update ''bob'' (joinSession_update ''bob'' [''alice'']) = [''alice'', ''bob''] \<and>
   joinSession ''alice'' session_of_alice (store_holding session_of_alice) =
     Inr (store_holding session_of_alice) \<and>
   (\<exists>db1. joinSession ''bob'' session_of_alice (store_holding session_of_alice) = Inr db1 \<and>
      joinSession ''bob'' session_of_alice db1 = Inr db1)"
  using
    join_idempotent [of "''alice''" "[''alice'']" "store_holding session_of_alice"
      session_of_alice session_of_alice]
    join_idempotent [of "''bob''" "[''alice'']" "store_holding session_of_alice"
      session_of_alice session_of_alice]
  by (simp add: store_holding_def session_of_alice_def joinSession_update_cases)

text \<open>
  C8. The transaction function of join only appends: it returns the array it was given
  when the id occurs in it, and the array with the id as new last element otherwise; the
  entries it was given stay, in their order, at the front of the result.
\<close>

theorem join_only_appends:
  "joinSession_update uid us = (if uid \<in> set us then us else us @ [uid]) \<and>
   take (length us) (joinSession_update uid us) = us"
proof (cases "indexOf us uid < 0")
  case True
  then have absent: "uid \<notin> set us" by (simp add: indexOf_neg_iff)
  from True have "joinSession_update uid us = us @ [uid]"
    by (simp add: joinSession_update_def push_def)
  with absent show ?thesis by simp
next
  case False
  then have present: "uid \<in> set us" by (simp add: indexOf_neg_iff)
  from False have "joinSession_update uid us = us"
    by (simp add: joinSession_update_def)
  with present show ?thesis by simp
qed

theorem join_only_appends_witness:
  "joinSession_update ''bob'' [''alice'', ''bob''] = [''alice'', ''bob''] \<and>
   joinSession_update ''carol'' [''alice'', ''bob''] = [''alice'', ''bob'', ''carol'']"
  using join_only_appends [of "''bob''" "[''alice'', ''bob'']"]
    join_only_appends [of "''carol''" "[''alice'', ''bob'']"]
  by simp

section \<open>The card's controls\<close>

lemma isInSession_iff: "isInSession uid s = (uid \<in> set (users s))"
  using indexOf_neg_iff [of "users s" uid] by (auto simp: isInSession_def)

lemma isFull_Some:
  "gd (type_s s) = Some g \<Longrightarrow> isFull gd s = Inr (maxUsers g \<le> int (length (users s)))"
  by (simp add: isFull_def)

lemma render_joinOrStartButton_Some:
  "gd (type_s s) = Some g \<Longrightarrow>
   render_joinOrStartButton uid gd s =
     (if uid \<in> set (users s) \<and> minUsers g \<le> int (length (users s))
      then Inr (StartGameLink (getGamePath s))
      else Inr (JoinButton (uid \<in> set (users s) \<or> maxUsers g \<le> int (length (users s)))
             (if maxUsers g \<le> int (length (users s)) then ''Game is full'' else ''Join'')))"
  by (simp add: render_joinOrStartButton_def shouldShowStartButton_def isFull_def isInSession_iff)

lemma click_join_full:
  assumes "gd (type_s s) = Some g" and "maxUsers g \<le> int (length (users s))"
  shows "click_join uid gd s db = Inr db"
  using assms by (simp add: click_join_def render_joinOrStartButton_Some)

text \<open>
  C10. For a kind the table knows: \<open>isInSession\<close> is true exactly when the caller's id
  occurs in \<open>session.users\<close>, \<open>isFull\<close> is true exactly when \<open>session.users.length\<close>
  is at least \<open>maxUsers\<close>, a rendered join button is disabled exactly when one of the
  two holds, and so the card offers an enabled join button exactly when the caller is not in
  the roster and the roster is shorter than \<open>maxUsers\<close>.
\<close>

theorem join_control_enabled_iff:
  "gd (type_s s) = Some g \<Longrightarrow>
   isInSession uid s = (uid \<in> set (users s)) \<and>
   isFull gd s = Inr (maxUsers g \<le> int (length (users s))) \<and>
   (\<forall>d l. render_joinOrStartButton uid gd s = Inr (JoinButton d l) \<longrightarrow>
      d = (uid \<in> set (users s) \<or> maxUsers g \<le> int (length (users s)))) \<and>
   ((\<exists>l. render_joinOrStartButton uid gd s = Inr (JoinButton False l)) =
      (uid \<notin> set (users s) \<and> int (length (users s)) < maxUsers g))"
proof (intro conjI allI impI)
  assume g: "gd (type_s s) = Some g"
  show "isInSession uid s = (uid \<in> set (users s))"
    by (rule isInSession_iff)
  show "isFull gd s = Inr (maxUsers g \<le> int (length (users s)))"
    using g by (rule isFull_Some)
  show "d = (uid \<in> set (users s) \<or> maxUsers g \<le> int (length (users s)))"
    if "render_joinOrStartButton uid gd s = Inr (JoinButton d l)" for d l
    using that g render_joinOrStartButton_Some [of gd s g uid]
    by (simp split: if_splits)
  show "(\<exists>l. render_joinOrStartButton uid gd s = Inr (JoinButton False l)) =
      (uid \<notin> set (users s) \<and> int (length (users s)) < maxUsers g)"
    using g render_joinOrStartButton_Some [of gd s g uid] by auto
qed

theorem join_control_enabled_iff_witness:
  "example_gameData (type_s session_of_alice) = Some \<lparr>minUsers = 2, maxUsers = 2\<rparr> \<and>
   isInSession ''bob'' session_of_alice = False \<and>
   isInSession ''alice'' session_of_alice = True \<and>
   isFull example_gameData session_of_alice = Inr False \<and>
   isFull example_gameData session_full = Inr True \<and>
   render_joinOrStartButton ''bob'' example_gameData session_of_alice =
     Inr (JoinButton False ''Join'') \<and>
   render_joinOrStartButton ''alice'' example_gameData session_of_alice =
     Inr (JoinButton True ''Join'') \<and>
   render_joinOrStartButton ''carol'' example_gameData session_full =
     Inr (JoinButton True ''Game is full'')"
  using
    join_control_enabled_iff [of example_gameData session_of_alice
      "\<lparr>minUsers = 2, maxUsers = 2\<rparr>" "''bob''"]
    join_control_enabled_iff [of example_gameData session_of_alice
      "\<lparr>minUsers = 2, maxUsers = 2\<rparr>" "''alice''"]
    join_control_enabled_iff [of example_gameData session_full
      "\<lparr>minUsers = 2, maxUsers = 2\<rparr>" "''carol''"]
  by (simp add: example_gameData_def session_of_alice_def session_full_def
      render_joinOrStartButton_Some)

text \<open>
  C2, as the claim states it, fails: the session holds two members, the cap of its kind
  is two, and \<open>joinSession\<close> for a third id does not fail but commits a roster of three.
  The same happens through the join button of a card whose cached roster still shows one
  member while the store already holds two.
\<close>

theorem join_past_cap_counterexample:
  "isFull example_gameData session_full = Inr True \<and>
   joinSession ''carol'' session_full (store_holding session_full) =
     Inr (store_holding (session_full\<lparr>users := [''alice'', ''bob'', ''carol'']\<rparr>)) \<and>
   click_join ''carol'' example_gameData session_of_alice (store_holding session_full) =
     Inr (store_holding (session_full\<lparr>users := [''alice'', ''bob'', ''carol'']\<rparr>))"
  by (simp add: isFull_def click_join_def render_joinOrStartButton_def shouldShowStartButton_def
      isInSession_iff joinSession_def joinSession_update_cases
      example_gameData_def session_of_alice_def session_full_def store_holding_def)

text \<open>
  C2, amended. \<open>joinSession\<close> raises no \<open>SessionFull\<close> and its transaction compares
  nothing with the cap: on a session that exists and whose stored roster is not empty and
  lacks the caller, it commits the roster with the caller appended, however many members
  the roster has. The cap is compared by \<open>isFull\<close> only, on the card's cached roster:
  when that roster has at least \<open>maxUsers\<close> members the card offers no enabled join
  button, whatever its label, and a click on the control leaves the store as it is.
\<close>

theorem join_cap_checked_on_render_only:
  "(session_metadata db (id_s s) = Some m \<longrightarrow> users m \<noteq> [] \<longrightarrow> uid \<notin> set (users m) \<longrightarrow>
      joinSession uid s db =
        Inr (db\<lparr>session_metadata :=
               (session_metadata db)(id_s s \<mapsto> m\<lparr>users := users m @ [uid]\<rparr>)\<rparr>)) \<and>
   (gd (type_s s) = Some g \<longrightarrow> maxUsers g \<le> int (length (users s)) \<longrightarrow>
      (\<forall>label. render_joinOrStartButton uid gd s \<noteq> Inr (JoinButton False label)) \<and>
      click_join uid gd s db = Inr db)"
  by (auto simp: joinSession_Some joinSession_update_cases click_join_full
      render_joinOrStartButton_Some)

theorem join_cap_checked_on_render_only_witness:
  "users session_full = [''alice'', ''bob''] \<and>
   joinSession ''carol'' session_full (store_holding session_full) =
     Inr (store_holding (session_full\<lparr>users := [''alice'', ''bob'', ''carol'']\<rparr>)) \<and>
   render_joinOrStartButton ''carol'' example_gameData session_full =
     Inr (JoinButton True ''Game is full'') \<and>
   click_join ''carol'' example_gameData session_full (store_holding session_full) =
     Inr (store_holding session_full)"
  using join_cap_checked_on_render_only [of "store_holding session_full" session_full
      session_full "''carol''" example_gameData "\<lparr>minUsers = 2, maxUsers = 2\<rparr>"]
  by (simp add: example_gameData_def session_of_alice_def session_full_def store_holding_def
      render_joinOrStartButton_Some)




section \<open>The tic-tac-toe move\<close>

lemma array_assign_in_range: "i < length xs \<Longrightarrow> array_assign xs i v = xs[i := v]"
  by (simp add: array_assign_def)

lemma getOtherUserId_loop_Null: "(getOtherUserId_loop us me = Null) = (set us \<subseteq> {me})"
  by (induction us) auto

lemma getOtherUserId_first:
  "getOtherUserId_loop us me =
     (case filter (\<lambda>u. u \<noteq> me) us of [] \<Rightarrow> Null | u # rest \<Rightarrow> Str u)"
  by (induction us) simp_all

lemma getOtherUserId_not_array: "getOtherUserId t \<noteq> Arr xs"
  by (simp add: getOtherUserId_def getOtherUserId_first split: list.splits)

lemma ref_set_move:
  assumes "cells \<noteq> []" and "other \<noteq> Arr []"
  shows "ref_set [(''cell_state'', Arr cells), (''current_user'', other)] stored =
     Some (if other = Null then map_of [(''cell_state'', Arr cells)]
           else map_of [(''cell_state'', Arr cells), (''current_user'', other)])"
  using assms by (simp add: ref_set_def stored_child_def)

lemma handleButtonClick_in_range:
  assumes "cellState t = Arr cells" and "i < length cells"
  shows "handleButtonClick t i stored =
     Inr (t\<lparr>cellState := Arr (cells[i :=
              Str (if myUserId t = sessionCreatorUserId t then ''X'' else ''O'')])\<rparr>,
          Some (if getOtherUserId t = Null
                then map_of [(''cell_state'', Arr (cells[i :=
                       Str (if myUserId t = sessionCreatorUserId t then ''X'' else ''O'')]))]
                else map_of [(''cell_state'', Arr (cells[i :=
                       Str (if myUserId t = sessionCreatorUserId t then ''X'' else ''O'')])),
                     (''current_user'', getOtherUserId t)]))"
proof -
  let ?cells' = "cells[i := Str (if myUserId t = sessionCreatorUserId t then ''X'' else ''O'')]"
  from assms(2) have "?cells' \<noteq> []" by auto
  then have "ref_set [(''cell_state'', Arr ?cells'), (''current_user'', getOtherUserId t)] stored =
     Some (if getOtherUserId t = Null then map_of [(''cell_state'', Arr ?cells')]
           else map_of [(''cell_state'', Arr ?cells'), (''current_user'', getOtherUserId t)])"
    using getOtherUserId_not_array by (rule ref_set_move)
  moreover have "handleButtonClick t i stored =
      Inr (t\<lparr>cellState := Arr ?cells'\<rparr>,
           ref_set [(''cell_state'', Arr ?cells'), (''current_user'', getOtherUserId t)] stored)"
    using assms by (simp add: handleButtonClick_def Let_def array_assign_in_range)
  ultimately show ?thesis by simp
qed

lemma render_buttons_Arr:
  "cellState t = Arr cells \<Longrightarrow>
   render_buttons t = Inr (map (\<lambda>state. (\<not> isMyTurn t \<or> state \<noteq> Str ''.'', state)) cells)"
  by (simp add: render_buttons_def)

lemma click_button_Arr:
  assumes "cellState t = Arr cells"
  shows "click_button t i stored =
     (if i < 9 \<and> i < length cells \<and> isMyTurn t \<and> cells ! i = Str ''.''
      then handleButtonClick t i stored else Inr (t, stored))"
  using assms by (auto simp: click_button_def render_buttons_Arr)

text \<open>
  C9. In the move handler the symbol written to the clicked cell depends only on whether
  the caller is the session's creator: the creator writes \<open>X\<close>, anyone else \<open>O\<close>. For
  a board of strings and a cell of the board, the cell holds that symbol afterwards, in
  the component and in the store, whatever it held before, whatever the component's
  \<open>currentUser\<close> is and whatever the store holds.
\<close>

theorem symbol_by_creator_only:
  assumes "cellState t = Arr cells" and "set cells \<subseteq> range Str" and "i < length cells"
  shows "\<exists>cells' d'. handleButtonClick t i stored = Inr (t\<lparr>cellState := Arr cells'\<rparr>, Some d') \<and>
     d' ''cell_state'' = Some (Arr cells') \<and>
     length cells' = length cells \<and>
     cells' ! i = Str (if myUserId t = sessionCreatorUserId t then ''X'' else ''O'')"
proof -
  let ?cells' = "cells[i := Str (if myUserId t = sessionCreatorUserId t then ''X'' else ''O'')]"
  let ?d' = "if getOtherUserId t = Null then map_of [(''cell_state'', Arr ?cells')]
     else map_of [(''cell_state'', Arr ?cells'), (''current_user'', getOtherUserId t)]"
  have "handleButtonClick t i stored = Inr (t\<lparr>cellState := Arr ?cells'\<rparr>, Some ?d')"
    using assms(1,3) by (rule handleButtonClick_in_range)
  moreover have "?d' ''cell_state'' = Some (Arr ?cells')" by simp
  moreover have "length ?cells' = length cells" by simp
  moreover have "?cells' ! i = Str (if myUserId t = sessionCreatorUserId t then ''X'' else ''O'')"
    using assms(3) by simp
  ultimately show ?thesis by blast
qed

theorem symbol_by_creator_only_witness:
  "set (map (\<lambda>c. Str [c]) ''X...X....'') \<subseteq> range Str \<and>
   handleButtonClick (tictactoe_of_bob\<lparr>cellState := board ''X...X....''\<rparr>) 4
       (Some (game_data ''X...X....'' ''alice'')) =
     Inr (tictactoe_of_bob\<lparr>cellState := board ''X...O....''\<rparr>,
          Some (game_data ''X...O....'' ''alice'')) \<and>
   handleButtonClick
       (tictactoe_of_alice\<lparr>cellState := board ''X...O....'', currentUser := Str ''bob''\<rparr>) 4
       (Some (game_data ''X...O....'' ''bob'')) =
     Inr (tictactoe_of_alice\<lparr>cellState := board ''X...X....'', currentUser := Str ''bob''\<rparr>,
          Some (game_data ''X...X....'' ''bob''))"
  using
    symbol_by_creator_only [of "tictactoe_of_bob\<lparr>cellState := board ''X...X....''\<rparr>"
      "map (\<lambda>c. Str [c]) ''X...X....''" 4 "Some (game_data ''X...X....'' ''alice'')"]
    symbol_by_creator_only
      [of "tictactoe_of_alice\<lparr>cellState := board ''X...O....'', currentUser := Str ''bob''\<rparr>"
      "map (\<lambda>c. Str [c]) ''X...O....''" 4 "Some (game_data ''X...O....'' ''bob'')"]
  by (simp add: tictactoe_of_bob_def tictactoe_of_alice_def board_def game_data_def
      getOtherUserId_def handleButtonClick_def array_assign_def ref_set_def stored_child_def
      Let_def)

text \<open>
  C6, as the claim states it, fails: with a roster that holds the caller alone,
  \<open>getOtherUserId\<close> returns \<open>null\<close> and \<open>handleButtonClick\<close> (which the enabled
  button runs) does not refuse the move but writes it; the store then holds the new cells and
  no turn holder at all. And with a roster of one member who is not the caller, that member
  is returned.
\<close>

theorem no_other_member_counterexample:
  "getOtherUserId (tictactoe_of_alice\<lparr>sessionUserIds := [''alice'']\<rparr>) = Null \<and>
   handleButtonClick (tictactoe_of_alice\<lparr>sessionUserIds := [''alice'']\<rparr>) 0 None =
     Inr (tictactoe_of_alice\<lparr>sessionUserIds := [''alice''], cellState := board ''X........''\<rparr>,
          Some (map_of [(''cell_state'', board ''X........'')])) \<and>
   map_of [(''cell_state'', board ''X........'')] ''current_user'' = None \<and>
   click_button (tictactoe_of_alice\<lparr>sessionUserIds := [''alice'']\<rparr>) 0 None =
     handleButtonClick (tictactoe_of_alice\<lparr>sessionUserIds := [''alice'']\<rparr>) 0 None \<and>
   getOtherUserId (tictactoe_of_alice\<lparr>sessionUserIds := [''bob'']\<rparr>) = Str ''bob''"
  by (simp add: getOtherUserId_def handleButtonClick_def click_button_def render_buttons_def
      isMyTurn_def array_assign_def ref_set_def stored_child_def Let_def
      tictactoe_of_alice_def board_def)

text \<open>
  C6, amended. For a roster of two distinct members that contains the caller,
  \<open>getOtherUserId\<close> returns the member who is not the caller. In general it returns the
  first entry of the roster that differs from the caller, and \<open>null\<close> exactly when
  there is none (the roster is empty or holds the caller only); it raises nothing.
  \<open>handleButtonClick\<close> does not inspect the result: for a board of strings and a cell of
  the board the move is written, with \<open>current_user\<close> the user id that
  \<open>getOtherUserId\<close> returned, and with no \<open>current_user\<close> in the store when it
  returned \<open>null\<close>.
\<close>

theorem other_user_lookup:
  "(sessionUserIds t = [a, b] \<and> a \<noteq> b \<and> myUserId t \<in> {a, b} \<longrightarrow>
      getOtherUserId t = Str (if myUserId t = a then b else a)) \<and>
   getOtherUserId t =
     (case filter (\<lambda>u. u \<noteq> myUserId t) (sessionUserIds t) of
        [] \<Rightarrow> Null | u # rest \<Rightarrow> Str u) \<and>
   ((getOtherUserId t = Null) = (set (sessionUserIds t) \<subseteq> {myUserId t})) \<and>
   (cellState t = Arr cells \<and> set cells \<subseteq> range Str \<and> i < length cells \<longrightarrow>
      (\<exists>t' d'. handleButtonClick t i stored = Inr (t', Some d') \<and>
         d' ''current_user'' =
           (if getOtherUserId t = Null then None else Some (getOtherUserId t))))"
proof (intro conjI impI)
  assume "sessionUserIds t = [a, b] \<and> a \<noteq> b \<and> myUserId t \<in> {a, b}"
  then show "getOtherUserId t = Str (if myUserId t = a then b else a)"
    by (auto simp: getOtherUserId_def)
next
  show "getOtherUserId t =
     (case filter (\<lambda>u. u \<noteq> myUserId t) (sessionUserIds t) of
        [] \<Rightarrow> Null | u # rest \<Rightarrow> Str u)"
    unfolding getOtherUserId_def by (rule getOtherUserId_first)
next
  show "(getOtherUserId t = Null) = (set (sessionUserIds t) \<subseteq> {myUserId t})"
    unfolding getOtherUserId_def by (rule getOtherUserId_loop_Null)
next
  assume "cellState t = Arr cells \<and> set cells \<subseteq> range Str \<and> i < length cells"
  then have "cellState t = Arr cells" and "i < length cells" by simp_all
  then show "\<exists>t' d'. handleButtonClick t i stored = Inr (t', Some d') \<and>
      d' ''current_user'' = (if getOtherUserId t = Null then None else Some (getOtherUserId t))"
    by (simp add: handleButtonClick_in_range)
qed

theorem other_user_lookup_witness:
  "getOtherUserId tictactoe_of_alice = Str ''bob'' \<and>
   getOtherUserId tictactoe_of_bob = Str ''alice'' \<and>
   getOtherUserId (tictactoe_of_alice\<lparr>sessionUserIds := [''alice'']\<rparr>) = Null \<and>
   set (map (\<lambda>c. Str [c]) ''.........'') \<subseteq> range Str \<and>
   (\<exists>t' d'. handleButtonClick (tictactoe_of_alice\<lparr>sessionUserIds := [''alice'']\<rparr>) 0 None =
      Inr (t', Some d') \<and> d' ''current_user'' = None) \<and>
   (\<exists>t' d'. handleButtonClick tictactoe_of_alice 0 None =
      Inr (t', Some d') \<and> d' ''current_user'' = Some (Str ''bob''))"
proof -
  have "getOtherUserId tictactoe_of_alice = Str ''bob'' \<and>
      (\<exists>t' d'. handleButtonClick tictactoe_of_alice 0 None =
        Inr (t', Some d') \<and> d' ''current_user'' = Some (Str ''bob''))"
    using other_user_lookup [of tictactoe_of_alice "''alice''" "''bob''"
        "map (\<lambda>c. Str [c]) ''.........''" 0 None]
    by (simp add: tictactoe_of_alice_def board_def getOtherUserId_def)
  moreover have "getOtherUserId tictactoe_of_bob = Str ''alice''"
    using other_user_lookup [of tictactoe_of_bob "''alice''" "''bob''"
        "map (\<lambda>c. Str [c]) ''.........''" 0 None]
    by (simp add: tictactoe_of_alice_def tictactoe_of_bob_def)
  moreover have "getOtherUserId (tictactoe_of_alice\<lparr>sessionUserIds := [''alice'']\<rparr>) = Null \<and>
      (\<exists>t' d'. handleButtonClick (tictactoe_of_alice\<lparr>sessionUserIds := [''alice'']\<rparr>) 0 None =
        Inr (t', Some d') \<and> d' ''current_user'' = None)"
    using other_user_lookup [of "tictactoe_of_alice\<lparr>sessionUserIds := [''alice'']\<rparr>"
        "''alice''" "''bob''" "map (\<lambda>c. Str [c]) ''.........''" 0 None]
    by (simp add: tictactoe_of_alice_def board_def getOtherUserId_def)
  ultimately show ?thesis by simp
qed

text \<open>
  C1, as the claim states it, fails. Alice moves; the store then names bob as the turn
  holder, and bob's component is handed that data. The handler has left alice's own
  \<open>currentUser\<close> as it was: until \<open>onSessionDataChanged\<close> hands the new data to her
  component her turn check still passes, and a second click commits a second move while
  the store names bob, instead of failing. Bob, whose component still holds the data of the
  first move, then clicks the cell of alice's second move: nothing is compared with what he
  read, the stored data is replaced and alice's second \<open>X\<close> is gone.
\<close>

theorem turn_move_unconditional_write_counterexample:
  "click_button tictactoe_of_alice 0 None =
     Inr (tictactoe_of_alice\<lparr>cellState := board ''X........''\<rparr>,
          Some (game_data ''X........'' ''bob'')) \<and>
   onSessionDataChanged (game_data ''X........'' ''bob'') tictactoe_of_bob =
     tictactoe_of_bob\<lparr>cellState := board ''X........'', currentUser := Str ''bob''\<rparr> \<and>
   isMyTurn (tictactoe_of_alice\<lparr>cellState := board ''X........''\<rparr>) \<and>
   click_button (tictactoe_of_alice\<lparr>cellState := board ''X........''\<rparr>) 1
       (Some (game_data ''X........'' ''bob'')) =
     Inr (tictactoe_of_alice\<lparr>cellState := board ''XX.......''\<rparr>,
          Some (game_data ''XX.......'' ''bob'')) \<and>
   click_button (tictactoe_of_bob\<lparr>cellState := board ''X........'', currentUser := Str ''bob''\<rparr>) 1
       (Some (game_data ''XX.......'' ''bob'')) =
     Inr (tictactoe_of_bob\<lparr>cellState := board ''XO.......'', currentUser := Str ''bob''\<rparr>,
          Some (game_data ''XO.......'' ''alice''))"
  by (simp add: getOtherUserId_def handleButtonClick_def click_button_def render_buttons_def
      onSessionDataChanged_def get_prop_def isMyTurn_def array_assign_def ref_set_def
      stored_child_def Let_def tictactoe_of_alice_def tictactoe_of_bob_def board_def
      game_data_def)

text \<open>
  C1, amended. A tic-tac-toe move starts from the component's cached state, a board of
  strings; for a cell of the board the handler computes the new cells and the next turn
  holder and commits them with one unconditional \<open>set\<close>: the stored data afterwards is
  the computed data (the new cells, the next turn holder when \<open>getOtherUserId\<close> found
  one, and nothing else) whatever the store held, nothing is compared with the state read
  and the move never fails for a lost turn. \<open>isMyTurn\<close> is checked by \<open>render\<close> only,
  on the cached state: a click on the \<open>i\<close>-th button runs the handler exactly when the
  page shows the button (\<open>i\<close> is below nine and a cell of the board), \<open>isMyTurn\<close>
  holds and the cached cell is \<open>.\<close>; otherwise nothing is written.
\<close>

theorem turn_move_by_unconditional_set:
  assumes "cellState t = Arr cells" and "set cells \<subseteq> range Str"
  shows "(i < length cells \<longrightarrow>
       (\<exists>d'. handleButtonClick t i stored =
            Inr (t\<lparr>cellState := Arr (cells[i :=
                     Str (if myUserId t = sessionCreatorUserId t then ''X'' else ''O'')])\<rparr>,
                 Some d') \<and>
          d' ''cell_state'' = Some (Arr (cells[i :=
              Str (if myUserId t = sessionCreatorUserId t then ''X'' else ''O'')])) \<and>
          d' ''current_user'' =
            (if getOtherUserId t = Null then None else Some (getOtherUserId t)) \<and>
          (\<forall>k. k \<noteq> ''cell_state'' \<longrightarrow> k \<noteq> ''current_user'' \<longrightarrow> d' k = None))) \<and>
     click_button t i stored =
       (if i < 9 \<and> i < length cells \<and> isMyTurn t \<and> cells ! i = Str ''.''
        then handleButtonClick t i stored else Inr (t, stored))"
proof (intro conjI impI)
  assume "i < length cells"
  with assms(1) show "\<exists>d'. handleButtonClick t i stored =
            Inr (t\<lparr>cellState := Arr (cells[i :=
                     Str (if myUserId t = sessionCreatorUserId t then ''X'' else ''O'')])\<rparr>,
                 Some d') \<and>
          d' ''cell_state'' = Some (Arr (cells[i :=
              Str (if myUserId t = sessionCreatorUserId t then ''X'' else ''O'')])) \<and>
          d' ''current_user'' =
            (if getOtherUserId t = Null then None else Some (getOtherUserId t)) \<and>
          (\<forall>k. k \<noteq> ''cell_state'' \<longrightarrow> k \<noteq> ''current_user'' \<longrightarrow> d' k = None)"
    by (simp add: handleButtonClick_in_range)
next
  show "click_button t i stored =
       (if i < 9 \<and> i < length cells \<and> isMyTurn t \<and> cells ! i = Str ''.''
        then handleButtonClick t i stored else Inr (t, stored))"
    using assms(1) by (rule click_button_Arr)
qed

theorem turn_move_by_unconditional_set_witness:
  "cellState tictactoe_of_alice = board ''.........'' \<and>
   set (map (\<lambda>c. Str [c]) ''.........'') \<subseteq> range Str \<and>
   handleButtonClick tictactoe_of_alice 4 (Some (game_data ''OOOOOOOOO'' ''carol'')) =
     Inr (tictactoe_of_alice\<lparr>cellState := board ''....X....''\<rparr>,
          Some (game_data ''....X....'' ''bob'')) \<and>
   click_button tictactoe_of_alice 4 (Some (game_data ''OOOOOOOOO'' ''carol'')) =
     Inr (tictactoe_of_alice\<lparr>cellState := board ''....X....''\<rparr>,
          Some (game_data ''....X....'' ''bob'')) \<and>
   click_button tictactoe_of_bob 4 (Some (game_data ''OOOOOOOOO'' ''carol'')) =
     Inr (tictactoe_of_bob, Some (game_data ''OOOOOOOOO'' ''carol'')) \<and>
   click_button (tictactoe_of_alice\<lparr>cellState := board ''..........''\<rparr>) 9 None =
     Inr (tictactoe_of_alice\<lparr>cellState := board ''..........''\<rparr>, None)"
  using
    turn_move_by_unconditional_set [of tictactoe_of_alice "map (\<lambda>c. Str [c]) ''.........''" 4
      "Some (game_data ''OOOOOOOOO'' ''carol'')"]
    turn_move_by_unconditional_set [of tictactoe_of_bob "map (\<lambda>c. Str [c]) ''.........''" 4
      "Some (game_data ''OOOOOOOOO'' ''carol'')"]
    turn_move_by_unconditional_set [of "tictactoe_of_alice\<lparr>cellState := board ''..........''\<rparr>"
      "map (\<lambda>c. Str [c]) ''..........''" 9 None]
  by (simp add: tictactoe_of_alice_def tictactoe_of_bob_def board_def game_data_def
      getOtherUserId_def isMyTurn_def handleButtonClick_def array_assign_def ref_set_def
      stored_child_def Let_def)

text \<open>
  C7, as the claim states it, fails: the stored data has a key \<open>user_id\<close> that the move
  does not mention, and after \<open>handleButtonClick\<close> the key is gone.
\<close>

theorem set_drops_other_keys_counterexample:
  "((game_data ''.........'' ''alice'')(''user_id'' \<mapsto> Str ''bob'')) ''user_id'' =
     Some (Str ''bob'') \<and>
   handleButtonClick tictactoe_of_alice 0
       (Some ((game_data ''.........'' ''alice'')(''user_id'' \<mapsto> Str ''bob''))) =
     Inr (tictactoe_of_alice\<lparr>cellState := board ''X........''\<rparr>,
          Some (game_data ''X........'' ''bob'')) \<and>
   game_data ''X........'' ''bob'' ''user_id'' = None"
  by (simp add: getOtherUserId_def handleButtonClick_def array_assign_def ref_set_def
      stored_child_def Let_def tictactoe_of_alice_def board_def game_data_def)

text \<open>
  C7, amended. \<open>setGameData\<close> is a merge: afterwards every key the update does not
  mention holds the value it held, and every key the update gives a string holds that
  string. The move handler writes with \<open>set\<close>, a replacement: for a
  board of strings and a cell of the board, the stored data afterwards has the key
  \<open>cell_state\<close>, the key \<open>current_user\<close> when \<open>getOtherUserId\<close> found another
  user, and no other key.
\<close>

theorem publish_merges_but_move_replaces:
  "(\<forall>k. map_of data k = None \<longrightarrow> setGameData data d k = d k) \<and>
   (\<forall>k v. map_of data k = Some (Str v) \<longrightarrow> setGameData data d k = Some (Str v)) \<and>
   (cellState t = Arr cells \<and> set cells \<subseteq> range Str \<and> i < length cells \<longrightarrow>
      (\<exists>t' d'. handleButtonClick t i (Some d) = Inr (t', Some d') \<and>
         dom d' = (if getOtherUserId t = Null then {''cell_state''}
                   else {''cell_state'', ''current_user''})))"
proof (intro conjI impI allI)
  fix k
  assume "map_of data k = None"
  then show "setGameData data d k = d k"
    by (simp add: setGameData_def ref_update_def)
next
  fix k v
  assume "map_of data k = Some (Str v)"
  then show "setGameData data d k = Some (Str v)"
    by (simp add: setGameData_def ref_update_def stored_child_def)
next
  assume "cellState t = Arr cells \<and> set cells \<subseteq> range Str \<and> i < length cells"
  then have "cellState t = Arr cells" and "i < length cells" by simp_all
  then show "\<exists>t' d'. handleButtonClick t i (Some d) = Inr (t', Some d') \<and>
      dom d' = (if getOtherUserId t = Null then {''cell_state''}
                else {''cell_state'', ''current_user''})"
    by (auto simp: handleButtonClick_in_range)
qed

theorem publish_merges_but_move_replaces_witness:
  "setGameData [(''last_user_id'', Str ''bob'')] [''text'' \<mapsto> Str ''Hello, World!''] ''text'' =
     Some (Str ''Hello, World!'') \<and>
   setGameData [(''last_user_id'', Str ''bob'')] [''text'' \<mapsto> Str ''Hello, World!'']
     ''last_user_id'' = Some (Str ''bob'') \<and>
   cellState tictactoe_of_alice = board ''.........'' \<and>
   set (map (\<lambda>c. Str [c]) ''.........'') \<subseteq> range Str \<and>
   (\<exists>t' d'. handleButtonClick tictactoe_of_alice 0 (Some [''text'' \<mapsto> Str ''Hello, World!'']) =
      Inr (t', Some d') \<and> dom d' = {''cell_state'', ''current_user''})"
  using publish_merges_but_move_replaces [of "[(''last_user_id'', Str ''bob'')]"
      "[''text'' \<mapsto> Str ''Hello, World!'']" tictactoe_of_alice
      "map (\<lambda>c. Str [c]) ''.........''" 0]
  by (simp add: setGameData_def ref_update_def stored_child_def tictactoe_of_alice_def
      board_def getOtherUserId_def)

end
